theory Spec2Isabelle
  imports Main
begin

section \<open>Errors and the error classifier (pkg/controller/util.go, lines 61-99)\<close>

text \<open>
  A Go \<^verbatim>\<open>error\<close> is an interface value; the dynamic types that the functions of
  \<^verbatim>\<open>pkg/controller/util.go\<close> build or inspect are listed here. A value of type
  \<open>error option\<close> is a Go \<^verbatim>\<open>error\<close> that may be \<^verbatim>\<open>nil\<close> (\<open>None\<close>).
  \<^item> \<open>RequeueError s\<close> and \<open>IgnoreError s\<close> are \<^verbatim>\<open>&RequeueError{s}\<close> and \<^verbatim>\<open>&IgnoreError{s}\<close>;
  \<^item> \<open>ErrorString s\<close> is what \<^verbatim>\<open>fmt.Errorf\<close> returns, with message \<open>s\<close>;
  \<^item> \<open>StatusError r s\<close> is an API status error with reason \<open>r\<close>, which is what
    \<^verbatim>\<open>errors.IsNotFound\<close> and \<^verbatim>\<open>errors.IsConflict\<close> look at;
  \<^item> \<open>ErrWaitTimeout\<close> is the sentinel \<^verbatim>\<open>wait.ErrWaitTimeout\<close> of apimachinery, one value
    that the retry helper recognises by identity (\<^verbatim>\<open>err == wait.ErrWaitTimeout\<close>); an
    \<open>ErrorString\<close> with the same message is another value.
\<close>

datatype StatusReason = StatusReasonNotFound | StatusReasonConflict | StatusReasonOther string

datatype error =
    RequeueError string
  | IgnoreError string
  | ErrorString string
  | StatusError StatusReason string
  | ErrWaitTimeout

text \<open>The \<^verbatim>\<open>Error()\<close> method of each dynamic type.\<close>

fun Error :: "error \<Rightarrow> string" where
  "Error (RequeueError s) = s"
| "Error (IgnoreError s) = s"
| "Error (ErrorString s) = s"
| "Error (StatusError r s) = s"
| "Error ErrWaitTimeout = ''timed out waiting for the condition''"

text \<open>
  \<^verbatim>\<open>fmt.Sprintf\<close> is a parameter \<open>sprintf\<close> of the constructors: any function from a
  format string and its arguments to the formatted string.
\<close>

definition RequeueErrorf :: "(string \<Rightarrow> 'a list \<Rightarrow> string) \<Rightarrow> string \<Rightarrow> 'a list \<Rightarrow> error option" where
  "RequeueErrorf sprintf format a = Some (RequeueError (sprintf format a))"

text \<open>\<^verbatim>\<open>_, ok := err.(*RequeueError); return ok\<close>: a type assertion, false on \<^verbatim>\<open>nil\<close>.\<close>

fun IsRequeueError :: "error option \<Rightarrow> bool" where
  "IsRequeueError (Some (RequeueError s)) = True"
| "IsRequeueError _ = False"

definition IgnoreErrorf :: "(string \<Rightarrow> 'a list \<Rightarrow> string) \<Rightarrow> string \<Rightarrow> 'a list \<Rightarrow> error option" where
  "IgnoreErrorf sprintf format a = Some (IgnoreError (sprintf format a))"

fun IsIgnoreError :: "error option \<Rightarrow> bool" where
  "IsIgnoreError (Some (IgnoreError s)) = True"
| "IsIgnoreError _ = False"

text \<open>\<^verbatim>\<open>fmt.Errorf(format, a...)\<close>, the plain formatted error.\<close>

definition Errorf :: "(string \<Rightarrow> 'a list \<Rightarrow> string) \<Rightarrow> string \<Rightarrow> 'a list \<Rightarrow> error option" where
  "Errorf sprintf format a = Some (ErrorString (sprintf format a))"

text \<open>The message of a possibly-nil error; \<open>None\<close> where Go would dereference \<^verbatim>\<open>nil\<close>.\<close>

fun message :: "error option \<Rightarrow> string option" where
  "message None = None"
| "message (Some e) = Some (Error e)"

text \<open>\<^verbatim>\<open>errors.IsNotFound\<close> and \<^verbatim>\<open>errors.IsConflict\<close> of apimachinery: the reason of a status error.\<close>

fun IsNotFound :: "error \<Rightarrow> bool" where
  "IsNotFound (StatusError StatusReasonNotFound s) = True"
| "IsNotFound _ = False"

fun IsConflict :: "error \<Rightarrow> bool" where
  "IsConflict (StatusError StatusReasonConflict s) = True"
| "IsConflict _ = False"

section \<open>Objects, keys and owner references\<close>

text \<open>
  The parts of the Kubernetes object model that the routers read. The record fields carry
  a prefix because Isabelle record fields share one name space (\<open>meta_Name\<close> is
  \<^verbatim>\<open>ObjectMeta.Name\<close>, \<open>ref_Name\<close> is \<^verbatim>\<open>OwnerReference.Name\<close>).
\<close>

record GroupVersion =
  gv_Group :: string
  gv_Version :: string

record GroupVersionKind =
  gvk_Group :: string
  gvk_Version :: string
  gvk_Kind :: string

record OwnerReference =
  ref_APIVersion :: string
  ref_Kind :: string
  ref_Name :: string
  ref_UID :: string
  ref_Controller :: "bool option"
  ref_BlockOwnerDeletion :: "bool option"

record ObjectMeta =
  meta_Name :: string
  meta_Namespace :: string
  meta_UID :: string
  meta_ResourceVersion :: string
  meta_Labels :: "string \<rightharpoonup> string"
  meta_Annotations :: "string \<rightharpoonup> string"
  meta_OwnerReferences :: "OwnerReference list"

text \<open>
  A \<^verbatim>\<open>runtime.Object\<close>: its \<^verbatim>\<open>GetObjectKind().GroupVersionKind()\<close>, its object metadata
  when the dynamic type implements \<^verbatim>\<open>metav1.Object\<close> (\<open>None\<close> when it does not), and the
  rest of the object (spec, status) as a value of type \<open>'b\<close>.
\<close>

record 'b RuntimeObject =
  obj_gvk :: GroupVersionKind
  obj_meta :: "ObjectMeta option"
  obj_body :: 'b

text \<open>
  What an informer hands to an event handler as \<^verbatim>\<open>interface{}\<close>: an API object, the
  tombstone \<^verbatim>\<open>cache.DeletedFinalStateUnknown{Key, Obj}\<close> of a delete whose object was
  missed, a \<^verbatim>\<open>cache.ExplicitKey\<close>, or any other Go value.
\<close>

datatype 'b payload =
    Object "'b RuntimeObject"
  | DeletedFinalStateUnknown string "'b payload"
  | ExplicitKey string
  | Opaque

text \<open>The type assertion \<^verbatim>\<open>obj.(metav1.Object)\<close>; \<open>None\<close> is \<^verbatim>\<open>ok == false\<close>.\<close>

fun asMetaObject :: "'b payload \<Rightarrow> ObjectMeta option" where
  "asMetaObject (Object ob) = obj_meta ob"
| "asMetaObject _ = None"

text \<open>
  Modelled from the spec: \<^verbatim>\<open>cache.MetaNamespaceKeyFunc\<close> and
  \<^verbatim>\<open>cache.DeletionHandlingMetaNamespaceKeyFunc\<close> belong to client-go, which is not under
  src/. Section 4.1: the key is \<^verbatim>\<open><namespace>/<name>\<close> for a namespaced object, omits the
  namespace segment otherwise, and derivation fails only for an object without identity
  metadata. Section 4.3: a delete falls back to the cached last-known key of a tombstone.
\<close>

definition objectKey :: "string \<Rightarrow> string \<Rightarrow> string" where
  "objectKey ns name = (if length ns > 0 then ns @ ''/'' @ name else name)"

fun MetaNamespaceKeyFunc :: "'b payload \<Rightarrow> error + string" where
  "MetaNamespaceKeyFunc (ExplicitKey k) = Inr k"
| "MetaNamespaceKeyFunc obj =
     (case asMetaObject obj of
        None \<Rightarrow> Inl (ErrorString ''object has no meta'')
      | Some meta \<Rightarrow> Inr (objectKey (meta_Namespace meta) (meta_Name meta)))"

fun DeletionHandlingMetaNamespaceKeyFunc :: "'b payload \<Rightarrow> error + string" where
  "DeletionHandlingMetaNamespaceKeyFunc (DeletedFinalStateUnknown k ob) = Inr k"
| "DeletionHandlingMetaNamespaceKeyFunc obj = MetaNamespaceKeyFunc obj"

text \<open>
  Modelled from the spec: \<^verbatim>\<open>metav1.GetControllerOf\<close> belongs to apimachinery, which is not
  under src/. Section 3: the controlling reference is the owner reference whose controller
  flag is set, at most one per object; absence is "no controller".
\<close>

definition GetControllerOf :: "ObjectMeta \<Rightarrow> OwnerReference option" where
  "GetControllerOf meta = find (\<lambda>r. ref_Controller r = Some True) (meta_OwnerReferences meta)"

text \<open>
  Modelled from the spec: \<^verbatim>\<open>schema.ParseGroupVersion\<close> belongs to apimachinery, which is
  not under src/. Section 4.2, step 2: parse the reference's group/version, fail if
  malformed. An apiVersion is \<^verbatim>\<open>version\<close> (the core group) or \<^verbatim>\<open>group/version\<close>; more than
  one slash is malformed.
\<close>

definition ParseGroupVersion :: "string \<Rightarrow> error + GroupVersion" where
  "ParseGroupVersion gv =
     (if length gv = 0 \<or> gv = ''/'' then Inr \<lparr>gv_Group = [], gv_Version = []\<rparr>
      else case count_list gv (CHR ''/'') of
        0 \<Rightarrow> Inr \<lparr>gv_Group = [], gv_Version = gv\<rparr>
      | Suc 0 \<Rightarrow> Inr \<lparr>gv_Group = takeWhile (\<lambda>c. c \<noteq> CHR ''/'') gv,
                      gv_Version = tl (dropWhile (\<lambda>c. c \<noteq> CHR ''/'') gv)\<rparr>
      | Suc (Suc n) \<Rightarrow> Inl (ErrorString ''unexpected GroupVersion string''))"

text \<open>
  Modelled from the spec: \<^verbatim>\<open>util.IsSubMapOf\<close> is defined in pkg/util of this repository,
  which is not under src/. Section 4.3: the event object's labels must be a superset of
  the filter, an exact key/value match for every required pair.
\<close>

definition IsSubMapOf :: "(string \<rightharpoonup> string) \<Rightarrow> (string \<rightharpoonup> string) \<Rightarrow> bool" where
  "IsSubMapOf first second = (first \<subseteq>\<^sub>m second)"

section \<open>The event routers (pkg/controller/util.go, lines 331-405)\<close>

text \<open>
  The effects of a handler: \<open>queue\<close> is the sequence of keys passed to \<^verbatim>\<open>q.Add\<close>, in
  order and with repetitions (collapsing them is the work queue's business), and
  \<open>handled\<close> is the sequence of errors passed to \<^verbatim>\<open>utilruntime.HandleError\<close>. Each report
  is one \<^verbatim>\<open>fmt.Errorf\<close> call of the source with its arguments. The \<^verbatim>\<open>klog\<close> line of the
  not-found branch is not part of the state.
\<close>

datatype 'b report =
    CouldntGetKey "'b payload" error
  | NotARuntimeObject "'b payload"
  | CannotParseGroupVersion OwnerReference string string
  | CannotGetController string string string string

record 'b RouterState =
  queue :: "string list"
  handled :: "'b report list"

text \<open>The three callbacks of \<^verbatim>\<open>cache.ResourceEventHandlerFuncs\<close>, as the informer calls them.\<close>

datatype 'b event =
    OnAdd "'b payload"
  | OnUpdate "'b payload" "'b payload"
  | OnDelete "'b payload"

text \<open>\<^verbatim>\<open>enqueueFn\<close> of \<^verbatim>\<open>WatchForObject\<close> (lines 333-340).\<close>

definition enqueueFn_object :: "'b payload \<Rightarrow> 'b RouterState \<Rightarrow> 'b RouterState" where
  "enqueueFn_object obj s =
     (case DeletionHandlingMetaNamespaceKeyFunc obj of
        Inl err \<Rightarrow> s\<lparr>handled := handled s @ [CouldntGetKey obj err]\<rparr>
      | Inr key \<Rightarrow> s\<lparr>queue := queue s @ [key]\<rparr>)"

text \<open>The handlers that \<^verbatim>\<open>WatchForObject\<close> registers (lines 341-347).\<close>

fun WatchForObject :: "'b event \<Rightarrow> 'b RouterState \<Rightarrow> 'b RouterState" where
  "WatchForObject (OnAdd obj) s = enqueueFn_object obj s"
| "WatchForObject (OnUpdate old cur) s = enqueueFn_object cur s"
| "WatchForObject (OnDelete obj) s = enqueueFn_object obj s"

text \<open>
  \<^verbatim>\<open>GetControllerFn\<close>: namespace and name to the pair \<^verbatim>\<open>(runtime.Object, error)\<close>, either of
  which may be \<^verbatim>\<open>nil\<close>.
\<close>

type_synonym 'b GetControllerFn = "string \<Rightarrow> string \<Rightarrow> 'b RuntimeObject option \<times> error option"

text \<open>
  \<^verbatim>\<open>enqueueFn\<close> of \<^verbatim>\<open>WatchForController\<close> (lines 354-397). The filter \<open>m\<close> is \<open>None\<close> for a
  \<^verbatim>\<open>nil\<close> map. The result \<open>None\<close> is the nil-dereference panic of
  \<^verbatim>\<open>controllerObj.GetObjectKind()\<close> when \<open>fn\<close> returns \<^verbatim>\<open>(nil, nil)\<close>.
\<close>

definition enqueueFn_controller ::
  "'b GetControllerFn \<Rightarrow> (string \<rightharpoonup> string) option \<Rightarrow> 'b payload \<Rightarrow> 'b RouterState
    \<Rightarrow> 'b RouterState option" where
  "enqueueFn_controller fn m obj s =
     (case asMetaObject obj of
        None \<Rightarrow> Some (s\<lparr>handled := handled s @ [NotARuntimeObject obj]\<rparr>)
      | Some meta \<Rightarrow>
          if (case m of None \<Rightarrow> False | Some f \<Rightarrow> \<not> IsSubMapOf f (meta_Labels meta)) then Some s
          else (case GetControllerOf meta of
            None \<Rightarrow> Some s
          | Some ref \<Rightarrow>
              (case ParseGroupVersion (ref_APIVersion ref) of
                 Inl err \<Rightarrow>
                   Some (s\<lparr>handled := handled s @
                     [CannotParseGroupVersion ref (meta_Namespace meta) (meta_Name meta)]\<rparr>)
               | Inr refGV \<Rightarrow>
                   (case fn (meta_Namespace meta) (ref_Name ref) of
                      (controllerObj, Some err) \<Rightarrow>
                        if IsNotFound err then Some s
                        else Some (s\<lparr>handled := handled s @
                          [CannotGetController (meta_Namespace meta) (ref_Name ref)
                             (meta_Namespace meta) (meta_Name meta)]\<rparr>)
                    | (None, None) \<Rightarrow> None
                    | (Some controllerObj, None) \<Rightarrow>
                        if ref_Kind ref = gvk_Kind (obj_gvk controllerObj) \<and>
                           gv_Group refGV = gvk_Group (obj_gvk controllerObj)
                        then (case DeletionHandlingMetaNamespaceKeyFunc (Object controllerObj) of
                                Inl err \<Rightarrow>
                                  Some (s\<lparr>handled := handled s @
                                    [CouldntGetKey (Object controllerObj) err]\<rparr>)
                              | Inr key \<Rightarrow> Some (s\<lparr>queue := queue s @ [key]\<rparr>))
                        else Some s))))"

text \<open>The handlers that \<^verbatim>\<open>WatchForController\<close> registers (lines 398-404).\<close>

fun WatchForController ::
  "'b GetControllerFn \<Rightarrow> (string \<rightharpoonup> string) option \<Rightarrow> 'b event \<Rightarrow> 'b RouterState
    \<Rightarrow> 'b RouterState option" where
  "WatchForController fn m (OnAdd obj) s = enqueueFn_controller fn m obj s"
| "WatchForController fn m (OnUpdate old cur) s = enqueueFn_controller fn m cur s"
| "WatchForController fn m (OnDelete obj) s = enqueueFn_controller fn m obj s"

text \<open>An informer delivering a sequence of events to the handlers of \<^verbatim>\<open>WatchForObject\<close>.\<close>

definition deliver :: "'b event list \<Rightarrow> 'b RouterState \<Rightarrow> 'b RouterState" where
  "deliver es s = fold WatchForObject es s"

section \<open>The guaranteed updater (pkg/controller/util.go, lines 442-462)\<close>

text \<open>\<^verbatim>\<open>client.ObjectKey\<close>, that is \<^verbatim>\<open>types.NamespacedName\<close>.\<close>

record ObjectKey =
  key_Namespace :: string
  key_Name :: string

text \<open>
  Modelled from the spec: \<^verbatim>\<open>client.ObjectKeyFromObject\<close> belongs to controller-runtime,
  which is not under src/. Section 4.4, step 1: derive the object's key, fail on a
  key-derivation error; section 4.1: derivation fails only for an object without identity
  metadata.
\<close>

definition ObjectKeyFromObject :: "'b RuntimeObject \<Rightarrow> error + ObjectKey" where
  "ObjectKeyFromObject ob =
     (case obj_meta ob of
        None \<Rightarrow> Inl (ErrorString ''object does not implement the Object interfaces'')
      | Some meta \<Rightarrow> Inr \<lparr>key_Namespace = meta_Namespace meta, key_Name = meta_Name meta\<rparr>)"

text \<open>
  The store client and the caller's \<^verbatim>\<open>updateFunc\<close> act on the object \<^verbatim>\<open>obj\<close> that they
  share by reference and on everything else they can reach (the remote store with its
  other writers, the caller's context), which is the world \<open>'w\<close>. An operation takes the
  object and the world and returns its error with the object and the world it leaves.
\<close>

type_synonym ('b, 'w) operation = "'b RuntimeObject \<Rightarrow> 'w \<Rightarrow> error option \<times> 'b RuntimeObject \<times> 'w"

record ('b, 'w) Client =
  cli_Get :: "ObjectKey \<Rightarrow> ('b, 'w) operation"
  cli_Update :: "('b, 'w) operation"

text \<open>The calls that \<^verbatim>\<open>GuaranteedUpdate\<close> makes, each with the error it returned.\<close>

datatype call =
    CallGet "error option"
  | CallUpdateFunc "error option"
  | CallUpdate "error option"

record ('b, 'w) UpdateState =
  st_obj :: "'b RuntimeObject"
  st_world :: 'w
  st_calls :: "call list"

text \<open>
  The closure passed to \<^verbatim>\<open>retry.RetryOnConflict\<close> (lines 449-461). \<open>DeepEqual\<close> is
  \<^verbatim>\<open>apiequality.Semantic.DeepEqual\<close>, a parameter. \<^verbatim>\<open>obj.DeepCopyObject()\<close> is the value of
  the object right after the fetch.
\<close>

definition GuaranteedUpdate_fn ::
  "('b RuntimeObject \<Rightarrow> 'b RuntimeObject \<Rightarrow> bool) \<Rightarrow> ('b, 'w) Client \<Rightarrow> ObjectKey
    \<Rightarrow> ('b, 'w) operation \<Rightarrow> ('b, 'w) UpdateState \<Rightarrow> error option \<times> ('b, 'w) UpdateState" where
  "GuaranteedUpdate_fn DeepEqual cli key updateFunc s =
     (case cli_Get cli key (st_obj s) (st_world s) of
        (err1, o1, w1) \<Rightarrow>
          (case err1 of
             Some err \<Rightarrow>
               (Some err, \<lparr>st_obj = o1, st_world = w1, st_calls = st_calls s @ [CallGet err1]\<rparr>)
           | None \<Rightarrow>
               (let beforeMutation = o1 in
                case updateFunc o1 w1 of
                  (err2, o2, w2) \<Rightarrow>
                    (case err2 of
                       Some err \<Rightarrow>
                         (Some err, \<lparr>st_obj = o2, st_world = w2,
                            st_calls = st_calls s @ [CallGet None, CallUpdateFunc err2]\<rparr>)
                     | None \<Rightarrow>
                         if DeepEqual o2 beforeMutation
                         then (None, \<lparr>st_obj = o2, st_world = w2,
                                 st_calls = st_calls s @ [CallGet None, CallUpdateFunc None]\<rparr>)
                         else (case cli_Update cli o2 w2 of
                                 (err3, o3, w3) \<Rightarrow>
                                   (err3, \<lparr>st_obj = o3, st_world = w3,
                                      st_calls = st_calls s @
                                        [CallGet None, CallUpdateFunc None, CallUpdate err3]\<rparr>))))))"

text \<open>
  Modelled from the spec: \<^verbatim>\<open>retry.RetryOnConflict\<close> (client-go) and
  \<^verbatim>\<open>wait.ExponentialBackoff\<close> (apimachinery) are not under src/. Section 4.4: the cycle
  is retried up to a fixed bounded number of attempts on the conflict failure signal only,
  every other failure aborts immediately, and a persistently conflicting writer degrades
  to a reported error. The definitions follow the library step by step.

  \<^verbatim>\<open>ExponentialBackoff\<close> calls the condition while steps remain, stops when the condition
  returns an error or \<^verbatim>\<open>true\<close>, and returns the sentinel \<^verbatim>\<open>ErrWaitTimeout\<close> when the steps
  are used up. \<open>Steps\<close> of the backoff is the number of attempts; the delay between two
  attempts is not modelled.

  \<^verbatim>\<open>RetryOnConflict\<close> passes a condition that runs \<open>fn\<close> and keeps the last conflict in its
  variable \<^verbatim>\<open>lastErr\<close> (the first component of the state here): \<^verbatim>\<open>nil\<close> from \<open>fn\<close> stops
  with success, a conflict asks for another attempt, any other error stops with that
  error. Its last step is \<^verbatim>\<open>if err == wait.ErrWaitTimeout { err = lastErr }\<close>, which also
  applies when the sentinel comes from \<open>fn\<close> itself.
\<close>

record Backoff =
  Steps :: nat

fun ExponentialBackoff ::
  "nat \<Rightarrow> ('t \<Rightarrow> (bool \<times> error option) \<times> 't) \<Rightarrow> 't \<Rightarrow> error option \<times> 't" where
  "ExponentialBackoff 0 condition t = (Some ErrWaitTimeout, t)"
| "ExponentialBackoff (Suc n) condition t =
     (case condition t of
        ((ok, err), t') \<Rightarrow>
          if err \<noteq> None \<or> ok then (err, t') else ExponentialBackoff n condition t')"

fun RetryOnConflict_condition ::
  "('s \<Rightarrow> error option \<times> 's) \<Rightarrow> error option \<times> 's \<Rightarrow> (bool \<times> error option) \<times> error option \<times> 's" where
  "RetryOnConflict_condition fn (lastErr, s) =
     (case fn s of
        (None, s') \<Rightarrow> ((True, None), (lastErr, s'))
      | (Some err, s') \<Rightarrow>
          if IsConflict err then ((False, None), (Some err, s'))
          else ((False, Some err), (lastErr, s')))"

definition RetryOnConflict ::
  "Backoff \<Rightarrow> ('s \<Rightarrow> error option \<times> 's) \<Rightarrow> 's \<Rightarrow> error option \<times> 's" where
  "RetryOnConflict backoff fn s =
     (case ExponentialBackoff (Steps backoff) (RetryOnConflict_condition fn) (None, s) of
        (err, lastErr, s') \<Rightarrow> (if err = Some ErrWaitTimeout then lastErr else err, s'))"

text \<open>
  \<^verbatim>\<open>GuaranteedUpdate(cli, obj, updateFunc)\<close> started in the world \<open>w\<close>: the returned error,
  and the object, the world and the calls made when it returns. The package variable
  \<^verbatim>\<open>retry.DefaultRetry\<close> of client-go is the parameter \<open>backoff\<close>.
\<close>

definition GuaranteedUpdate ::
  "Backoff \<Rightarrow> ('b RuntimeObject \<Rightarrow> 'b RuntimeObject \<Rightarrow> bool) \<Rightarrow> ('b, 'w) Client
    \<Rightarrow> 'b RuntimeObject \<Rightarrow> ('b, 'w) operation \<Rightarrow> 'w
    \<Rightarrow> error option \<times> ('b, 'w) UpdateState" where
  "GuaranteedUpdate backoff DeepEqual cli ob updateFunc w =
     (case ObjectKeyFromObject ob of
        Inl err \<Rightarrow> (Some err, \<lparr>st_obj = ob, st_world = w, st_calls = []\<rparr>)
      | Inr key \<Rightarrow>
          RetryOnConflict backoff (GuaranteedUpdate_fn DeepEqual cli key updateFunc)
            \<lparr>st_obj = ob, st_world = w, st_calls = []\<rparr>)"

subsection \<open>Properties of a sequence of calls\<close>

fun ret :: "call \<Rightarrow> error option" where
  "ret (CallGet e) = e"
| "ret (CallUpdateFunc e) = e"
| "ret (CallUpdate e) = e"

fun isGet :: "call \<Rightarrow> bool" where
  "isGet (CallGet e) = True"
| "isGet _ = False"

fun isUpdate :: "call \<Rightarrow> bool" where
  "isUpdate (CallUpdate e) = True"
| "isUpdate _ = False"

text \<open>The call returned a version conflict.\<close>

definition conflicted :: "call \<Rightarrow> bool" where
  "conflicted c = (case ret c of None \<Rightarrow> False | Some e \<Rightarrow> IsConflict e)"

text \<open>
  The error of the last call that returned a conflict, starting from \<open>acc\<close>: the value of
  the variable \<^verbatim>\<open>lastErr\<close> of the retry helper after these calls.
\<close>

fun lastConflict :: "error option \<Rightarrow> call list \<Rightarrow> error option" where
  "lastConflict acc [] = acc"
| "lastConflict acc (c # cs) = lastConflict (if conflicted c then ret c else acc) cs"

text \<open>
  What the retry helper returns after a sequence of calls: the error of the last call,
  but the last conflict (\<^verbatim>\<open>nil\<close> when there was none) in place of the sentinel.
\<close>

definition returned :: "call list \<Rightarrow> error option" where
  "returned cs =
     (if cs = [] then None
      else if ret (last cs) = Some ErrWaitTimeout then lastConflict None cs
      else ret (last cs))"

text \<open>
  \<open>follows c d\<close>: the call \<open>d\<close> may come right after the call \<open>c\<close>. After a call that
  succeeded the cycle goes on (no fetch); after a conflict a new cycle starts with a
  fetch; after any other error nothing comes.
\<close>

definition follows :: "call \<Rightarrow> call \<Rightarrow> bool" where
  "follows c d = (case ret c of None \<Rightarrow> \<not> isGet d | Some e \<Rightarrow> IsConflict e \<and> isGet d)"

fun chain :: "call list \<Rightarrow> bool" where
  "chain [] = True"
| "chain [c] = True"
| "chain (c # d # cs) = (follows c d \<and> chain (d # cs))"

text \<open>A fetch comes right after exactly the calls that returned a conflict.\<close>

fun retry_discipline :: "call list \<Rightarrow> bool" where
  "retry_discipline [] = True"
| "retry_discipline [c] = True"
| "retry_discipline (c # d # cs) = (isGet d = conflicted c \<and> retry_discipline (d # cs))"

text \<open>
  The first clause of the retry rule read literally: a fetch comes right after a call only
  when that call is a write that returned a conflict.
\<close>

fun retried_only_after_write_conflict :: "call list \<Rightarrow> bool" where
  "retried_only_after_write_conflict [] = True"
| "retried_only_after_write_conflict [c] = True"
| "retried_only_after_write_conflict (c # d # cs) =
     ((if isGet d then isUpdate c \<and> conflicted c else True) \<and>
      retried_only_after_write_conflict (d # cs))"



text \<open>
  One run of the closure: a fetch that failed, or a fetch and a mutation (that failed, or
  that left the object unchanged), or a fetch, a mutation and a write. \<open>err\<close> is what the
  closure returns.
\<close>

definition cycle :: "call list \<Rightarrow> error option \<Rightarrow> bool" where
  "cycle cyc err =
     ((\<exists>e. cyc = [CallGet (Some e)] \<and> err = Some e) \<or>
      cyc = [CallGet None, CallUpdateFunc err] \<or>
      cyc = [CallGet None, CallUpdateFunc None, CallUpdate err])"

subsection \<open>Events for one object identity\<close>

text \<open>
  \<open>identifies ns name obj\<close>: the payload is a live object whose metadata carries the
  namespace \<open>ns\<close> and the name \<open>name\<close>. \<open>eventOn ns name ev\<close>: the event is about that
  object; a delete may carry a tombstone whose cached key is the key of the object.
\<close>

fun identifies :: "string \<Rightarrow> string \<Rightarrow> 'b payload \<Rightarrow> bool" where
  "identifies ns name (Object ob) =
     (case obj_meta ob of
        None \<Rightarrow> False
      | Some meta \<Rightarrow> meta_Namespace meta = ns \<and> meta_Name meta = name)"
| "identifies ns name obj = False"

fun eventOn :: "string \<Rightarrow> string \<Rightarrow> 'b event \<Rightarrow> bool" where
  "eventOn ns name (OnAdd obj) = identifies ns name obj"
| "eventOn ns name (OnUpdate old cur) = identifies ns name cur"
| "eventOn ns name (OnDelete (DeletedFinalStateUnknown k lastKnown)) = (k = objectKey ns name)"
| "eventOn ns name (OnDelete obj) = identifies ns name obj"

section \<open>Concrete objects, stores and mutations\<close>

text \<open>
  A cluster \<^verbatim>\<open>ns1/demo\<close> of kind \<^verbatim>\<open>TikvCluster\<close> in group \<^verbatim>\<open>tikv.org\<close> (the body of an object
  is a number here), a pod that it controls, and a stateful set that has the name of the
  cluster.
\<close>

definition conflictErr :: error where
  "conflictErr = StatusError StatusReasonConflict ''the object has been modified''"

definition notFoundErr :: error where
  "notFoundErr = StatusError StatusReasonNotFound ''not found''"

definition demoMeta :: ObjectMeta where
  "demoMeta = \<lparr>meta_Name = ''demo'', meta_Namespace = ''ns1'', meta_UID = ''uid-1'',
     meta_ResourceVersion = ''1'', meta_Labels = Map.empty, meta_Annotations = Map.empty,
     meta_OwnerReferences = []\<rparr>"

definition demoCluster :: "nat RuntimeObject" where
  "demoCluster =
     \<lparr>obj_gvk = \<lparr>gvk_Group = ''tikv.org'', gvk_Version = ''v1alpha1'', gvk_Kind = ''TikvCluster''\<rparr>,
      obj_meta = Some demoMeta, obj_body = 0\<rparr>"

definition demoSet :: "nat RuntimeObject" where
  "demoSet =
     \<lparr>obj_gvk = \<lparr>gvk_Group = ''apps'', gvk_Version = ''v1'', gvk_Kind = ''StatefulSet''\<rparr>,
      obj_meta = Some demoMeta, obj_body = 0\<rparr>"

definition bareObject :: "nat RuntimeObject" where
  "bareObject =
     \<lparr>obj_gvk = \<lparr>gvk_Group = [], gvk_Version = ''v1'', gvk_Kind = ''Status''\<rparr>,
      obj_meta = None, obj_body = 0\<rparr>"

definition demoRef :: OwnerReference where
  "demoRef = \<lparr>ref_APIVersion = ''tikv.org/v1alpha1'', ref_Kind = ''TikvCluster'',
     ref_Name = ''demo'', ref_UID = ''uid-1'', ref_Controller = Some True,
     ref_BlockOwnerDeletion = Some True\<rparr>"

definition podMeta :: ObjectMeta where
  "podMeta = \<lparr>meta_Name = ''demo-pd-0'', meta_Namespace = ''ns1'', meta_UID = ''uid-2'',
     meta_ResourceVersion = ''5'',
     meta_Labels = [''managed-by'' \<mapsto> ''tikv-operator'', ''component'' \<mapsto> ''pd''],
     meta_Annotations = Map.empty, meta_OwnerReferences = [demoRef]\<rparr>"

definition demoPod :: "nat RuntimeObject" where
  "demoPod =
     \<lparr>obj_gvk = \<lparr>gvk_Group = [], gvk_Version = ''v1'', gvk_Kind = ''Pod''\<rparr>,
      obj_meta = Some podMeta, obj_body = 0\<rparr>"

definition managedFilter :: "string \<rightharpoonup> string" where
  "managedFilter = [''managed-by'' \<mapsto> ''tikv-operator'']"

definition tierFilter :: "string \<rightharpoonup> string" where
  "tierFilter = [''managed-by'' \<mapsto> ''tikv-operator'', ''tier'' \<mapsto> ''db'']"

definition clusterLister :: "nat GetControllerFn" where
  "clusterLister ns name =
     (if ns = ''ns1'' \<and> name = ''demo'' then (Some demoCluster, None) else (None, Some notFoundErr))"

definition setLister :: "nat GetControllerFn" where
  "setLister ns name =
     (if ns = ''ns1'' \<and> name = ''demo'' then (Some demoSet, None) else (None, Some notFoundErr))"

definition emptyRouter :: "nat RouterState" where
  "emptyRouter = \<lparr>queue = [], handled = []\<rparr>"

text \<open>
  Stores whose world is a counter. \<open>plainClient\<close> fetches and writes without failure;
  \<open>conflictOnceClient\<close> rejects the first write with a conflict and holds an object whose
  body is the counter; \<open>alwaysConflictClient\<close> rejects every write with a conflict;
  \<open>brokenClient\<close> fails every fetch with an error that is not a conflict;
  \<open>timeoutAfterConflictClient\<close> rejects the write with a conflict and then fails the fetch
  with the sentinel of the retry helper.
\<close>

definition plainClient :: "(nat, nat) Client" where
  "plainClient = \<lparr>cli_Get = (\<lambda>key ob w. (None, ob, w)), cli_Update = (\<lambda>ob w. (None, ob, w))\<rparr>"

definition conflictOnceClient :: "(nat, nat) Client" where
  "conflictOnceClient =
     \<lparr>cli_Get = (\<lambda>key ob w. (None, ob\<lparr>obj_body := w\<rparr>, w)),
      cli_Update = (\<lambda>ob w. if w = 0 then (Some conflictErr, ob, 1) else (None, ob, w))\<rparr>"

definition alwaysConflictClient :: "(nat, nat) Client" where
  "alwaysConflictClient =
     \<lparr>cli_Get = (\<lambda>key ob w. (None, ob, w)),
      cli_Update = (\<lambda>ob w. (Some conflictErr, ob, Suc w))\<rparr>"

definition timeoutAfterConflictClient :: "(nat, nat) Client" where
  "timeoutAfterConflictClient =
     \<lparr>cli_Get = (\<lambda>key ob w. if w = 0 then (None, ob, w) else (Some ErrWaitTimeout, ob, w)),
      cli_Update = (\<lambda>ob w. (Some conflictErr, ob, 1))\<rparr>"

definition brokenClient :: "(nat, nat) Client" where
  "brokenClient =
     \<lparr>cli_Get = (\<lambda>key ob w. (Some notFoundErr, ob, w)), cli_Update = (\<lambda>ob w. (None, ob, w))\<rparr>"

text \<open>The value that client-go gives \<^verbatim>\<open>retry.DefaultRetry\<close>: five attempts.\<close>

definition DefaultRetry :: Backoff where
  "DefaultRetry = \<lparr>Steps = 5\<rparr>"

text \<open>Mutation functions, as a caller would pass them for \<^verbatim>\<open>updateFunc\<close>.\<close>

definition bumpBody :: "(nat, nat) operation" where
  "bumpBody ob w = (None, ob\<lparr>obj_body := Suc (obj_body ob)\<rparr>, w)"

definition setBody7 :: "(nat, nat) operation" where
  "setBody7 ob w = (None, ob\<lparr>obj_body := 7\<rparr>, w)"

definition noChange :: "(nat, nat) operation" where
  "noChange ob w = (None, ob, w)"

definition mutateFails :: "(nat, nat) operation" where
  "mutateFails ob w = (Some (ErrorString ''cannot compute the desired state''), ob, w)"

definition mutateTimesOut :: "(nat, nat) operation" where
  "mutateTimesOut ob w = (Some ErrWaitTimeout, ob, w)"

definition mutateConflictOnce :: "(nat, nat) operation" where
  "mutateConflictOnce ob w =
     (if w = 0 then (Some conflictErr, ob, 1)
      else (None, ob\<lparr>obj_body := Suc (obj_body ob)\<rparr>, w))"

definition mutateAlwaysConflict :: "(nat, nat) operation" where
  "mutateAlwaysConflict ob w = (Some conflictErr, ob, w)"

section \<open>Theorems\<close>

subsection \<open>The error classifier\<close>

text \<open>
  C7. For every format string and arguments, the value built by \<open>RequeueErrorf\<close> satisfies
  \<open>IsRequeueError\<close> and not \<open>IsIgnoreError\<close>; the value built by \<open>IgnoreErrorf\<close> satisfies
  \<open>IsIgnoreError\<close> and not \<open>IsRequeueError\<close>; a plain formatted error satisfies neither;
  and in each case the \<^verbatim>\<open>Error()\<close> message is the formatted string.
\<close>

theorem error_classifier:
  "IsRequeueError (RequeueErrorf sprintf format a) \<and>
   \<not> IsIgnoreError (RequeueErrorf sprintf format a) \<and>
   message (RequeueErrorf sprintf format a) = Some (sprintf format a) \<and>
   IsIgnoreError (IgnoreErrorf sprintf format a) \<and>
   \<not> IsRequeueError (IgnoreErrorf sprintf format a) \<and>
   message (IgnoreErrorf sprintf format a) = Some (sprintf format a) \<and>
   \<not> IsRequeueError (Errorf sprintf format a) \<and>
   \<not> IsIgnoreError (Errorf sprintf format a) \<and>
   message (Errorf sprintf format a) = Some (sprintf format a)"
  by (simp add: RequeueErrorf_def IgnoreErrorf_def Errorf_def)

subsection \<open>Unfolding and evaluation\<close>

lemmas fixture_defs =
  conflictErr_def notFoundErr_def demoMeta_def demoCluster_def demoSet_def bareObject_def
  demoRef_def podMeta_def demoPod_def managedFilter_def tierFilter_def clusterLister_def
  setLister_def emptyRouter_def plainClient_def conflictOnceClient_def
  alwaysConflictClient_def brokenClient_def timeoutAfterConflictClient_def bumpBody_def setBody7_def noChange_def
  mutateFails_def mutateTimesOut_def mutateConflictOnce_def mutateAlwaysConflict_def
  DefaultRetry_def

lemmas update_defs =
  GuaranteedUpdate_def ObjectKeyFromObject_def RetryOnConflict_def
  GuaranteedUpdate_fn_def eval_nat_numeral

lemmas router_defs =
  enqueueFn_controller_def enqueueFn_object_def GetControllerOf_def ParseGroupVersion_def
  IsSubMapOf_def map_le_def objectKey_def deliver_def

subsection \<open>The event routers\<close>

lemma missing_pair_not_submap:
  "f k = Some v \<Longrightarrow> l k \<noteq> Some v \<Longrightarrow> \<not> IsSubMapOf f l"
  by (auto simp: IsSubMapOf_def map_le_def dom_def)

lemma all_pairs_submap:
  "(\<forall>k v. f k = Some v \<longrightarrow> l k = Some v) \<Longrightarrow> IsSubMapOf f l"
  by (auto simp: IsSubMapOf_def map_le_def)

lemma enqueueFn_controller_dropped:
  "asMetaObject obj = Some meta \<Longrightarrow> \<not> IsSubMapOf f (meta_Labels meta) \<Longrightarrow>
   enqueueFn_controller fn (Some f) obj s = Some s"
  by (simp add: enqueueFn_controller_def)

lemma enqueueFn_controller_resolved:
  assumes "obj_meta child = Some cmeta"
    and "case m of None \<Rightarrow> True | Some f \<Rightarrow> IsSubMapOf f (meta_Labels cmeta)"
    and "GetControllerOf cmeta = Some ref"
    and "ParseGroupVersion (ref_APIVersion ref) = Inr refGV"
    and "fn (meta_Namespace cmeta) (ref_Name ref) = (Some controllerObj, None)"
    and "ref_Kind ref = gvk_Kind (obj_gvk controllerObj)"
    and "gv_Group refGV = gvk_Group (obj_gvk controllerObj)"
    and "obj_meta controllerObj = Some pmeta"
  shows "enqueueFn_controller fn m (Object child) s =
     Some (s\<lparr>queue := queue s @ [objectKey (meta_Namespace pmeta) (meta_Name pmeta)]\<rparr>)"
  using assms by (simp add: enqueueFn_controller_def split: option.splits)

lemma GetControllerOf_rename:
  "GetControllerOf (meta\<lparr>meta_Name := n\<rparr>) = GetControllerOf meta"
  by (simp add: GetControllerOf_def)

lemma enqueueFn_object_identified:
  "identifies ns name obj \<Longrightarrow>
   enqueueFn_object obj s = s\<lparr>queue := queue s @ [objectKey ns name]\<rparr>"
  by (cases obj) (auto simp: enqueueFn_object_def split: option.splits)

lemma WatchForObject_eventOn:
  "eventOn ns name ev \<Longrightarrow> WatchForObject ev s = s\<lparr>queue := queue s @ [objectKey ns name]\<rparr>"
proof (induction ns name ev rule: eventOn.induct)
  case (3 ns name k lastKnown)
  then show ?case by (simp add: enqueueFn_object_def)
qed (simp_all add: enqueueFn_object_identified)

lemma deliver_eventOn:
  "\<forall>ev \<in> set es. eventOn ns name ev \<Longrightarrow>
   deliver es s = s\<lparr>queue := queue s @ replicate (length es) (objectKey ns name)\<rparr>"
proof (induction es arbitrary: s)
  case Nil
  then show ?case by (simp add: deliver_def)
next
  case (Cons ev es)
  have step: "WatchForObject ev s = s\<lparr>queue := queue s @ [objectKey ns name]\<rparr>"
    using Cons.prems by (simp add: WatchForObject_eventOn)
  have "deliver (ev # es) s = deliver es (WatchForObject ev s)"
    by (simp add: deliver_def)
  also have "\<dots> = (WatchForObject ev s)
      \<lparr>queue := queue (WatchForObject ev s) @ replicate (length es) (objectKey ns name)\<rparr>"
    using Cons.prems by (intro Cons.IH) simp
  also have "\<dots> = s\<lparr>queue := queue s @ replicate (length (ev # es)) (objectKey ns name)\<rparr>"
    by (simp add: step replicate_append_same)
  finally show ?case .
qed

text \<open>
  C4. In filtered indirect mode, an event whose labels miss a required pair of the filter
  (the key is absent or its value differs) enqueues nothing. An event whose labels hold
  every required pair and whose controller resolves enqueues the key of the controller
  object; the key is computed from the controller object and stays the same whatever the
  name of the child is.
\<close>

theorem filtered_indirect_mode:
  "(asMetaObject obj = Some meta \<and> f k = Some v \<and> meta_Labels meta k \<noteq> Some v \<longrightarrow>
      WatchForController fn (Some f) (OnAdd obj) s = Some s \<and>
      WatchForController fn (Some f) (OnUpdate old obj) s = Some s \<and>
      WatchForController fn (Some f) (OnDelete obj) s = Some s) \<and>
   (obj_meta child = Some cmeta \<and> (\<forall>k v. g k = Some v \<longrightarrow> meta_Labels cmeta k = Some v) \<and>
    GetControllerOf cmeta = Some ref \<and> ParseGroupVersion (ref_APIVersion ref) = Inr refGV \<and>
    lister (meta_Namespace cmeta) (ref_Name ref) = (Some controllerObj, None) \<and>
    ref_Kind ref = gvk_Kind (obj_gvk controllerObj) \<and>
    gv_Group refGV = gvk_Group (obj_gvk controllerObj) \<and>
    obj_meta controllerObj = Some pmeta \<longrightarrow>
      DeletionHandlingMetaNamespaceKeyFunc (Object controllerObj) =
        Inr (objectKey (meta_Namespace pmeta) (meta_Name pmeta)) \<and>
      WatchForController lister (Some g) (OnAdd (Object child)) t =
        Some (t\<lparr>queue := queue t @ [objectKey (meta_Namespace pmeta) (meta_Name pmeta)]\<rparr>) \<and>
      WatchForController lister (Some g) (OnUpdate old' (Object child)) t =
        Some (t\<lparr>queue := queue t @ [objectKey (meta_Namespace pmeta) (meta_Name pmeta)]\<rparr>) \<and>
      WatchForController lister (Some g) (OnDelete (Object child)) t =
        Some (t\<lparr>queue := queue t @ [objectKey (meta_Namespace pmeta) (meta_Name pmeta)]\<rparr>) \<and>
      WatchForController lister (Some g)
          (OnAdd (Object (child\<lparr>obj_meta := Some (cmeta\<lparr>meta_Name := n\<rparr>)\<rparr>))) t =
        Some (t\<lparr>queue := queue t @ [objectKey (meta_Namespace pmeta) (meta_Name pmeta)]\<rparr>))"
proof (intro conjI impI)
  assume a: "asMetaObject obj = Some meta \<and> f k = Some v \<and> meta_Labels meta k \<noteq> Some v"
  then have drop: "enqueueFn_controller fn (Some f) obj s = Some s"
    by (intro enqueueFn_controller_dropped[of obj meta] missing_pair_not_submap[of f k v]) simp_all
  show "WatchForController fn (Some f) (OnAdd obj) s = Some s"
    and "WatchForController fn (Some f) (OnUpdate old obj) s = Some s"
    and "WatchForController fn (Some f) (OnDelete obj) s = Some s"
    using drop by simp_all
next
  assume b: "obj_meta child = Some cmeta \<and> (\<forall>k v. g k = Some v \<longrightarrow> meta_Labels cmeta k = Some v) \<and>
    GetControllerOf cmeta = Some ref \<and> ParseGroupVersion (ref_APIVersion ref) = Inr refGV \<and>
    lister (meta_Namespace cmeta) (ref_Name ref) = (Some controllerObj, None) \<and>
    ref_Kind ref = gvk_Kind (obj_gvk controllerObj) \<and>
    gv_Group refGV = gvk_Group (obj_gvk controllerObj) \<and>
    obj_meta controllerObj = Some pmeta"
  then have sub: "case Some g of None \<Rightarrow> True | Some f \<Rightarrow> IsSubMapOf f (meta_Labels cmeta)"
    by (simp add: all_pairs_submap)
  from b have child: "obj_meta child = Some cmeta"
    and ref: "GetControllerOf cmeta = Some ref"
    and gv: "ParseGroupVersion (ref_APIVersion ref) = Inr refGV"
    and found: "lister (meta_Namespace cmeta) (ref_Name ref) = (Some controllerObj, None)"
    and kind: "ref_Kind ref = gvk_Kind (obj_gvk controllerObj)"
    and grp: "gv_Group refGV = gvk_Group (obj_gvk controllerObj)"
    and parent: "obj_meta controllerObj = Some pmeta"
    by blast+
  have res: "enqueueFn_controller lister (Some g) (Object child) t =
      Some (t\<lparr>queue := queue t @ [objectKey (meta_Namespace pmeta) (meta_Name pmeta)]\<rparr>)"
    by (rule enqueueFn_controller_resolved[where fn = lister and m = "Some g",
          OF child sub ref gv found kind grp parent])
  show "DeletionHandlingMetaNamespaceKeyFunc (Object controllerObj) =
        Inr (objectKey (meta_Namespace pmeta) (meta_Name pmeta))"
    using parent by simp
  show "WatchForController lister (Some g) (OnAdd (Object child)) t =
        Some (t\<lparr>queue := queue t @ [objectKey (meta_Namespace pmeta) (meta_Name pmeta)]\<rparr>)"
    and "WatchForController lister (Some g) (OnUpdate old' (Object child)) t =
        Some (t\<lparr>queue := queue t @ [objectKey (meta_Namespace pmeta) (meta_Name pmeta)]\<rparr>)"
    and "WatchForController lister (Some g) (OnDelete (Object child)) t =
        Some (t\<lparr>queue := queue t @ [objectKey (meta_Namespace pmeta) (meta_Name pmeta)]\<rparr>)"
    using res by simp_all
  have "enqueueFn_controller lister (Some g)
      (Object (child\<lparr>obj_meta := Some (cmeta\<lparr>meta_Name := n\<rparr>)\<rparr>)) t =
      Some (t\<lparr>queue := queue t @ [objectKey (meta_Namespace pmeta) (meta_Name pmeta)]\<rparr>)"
    by (rule enqueueFn_controller_resolved[where cmeta = "cmeta\<lparr>meta_Name := n\<rparr>" and ref = ref
          and refGV = refGV and controllerObj = controllerObj and fn = lister and m = "Some g"])
      (use sub ref gv found kind grp parent in \<open>simp_all add: GetControllerOf_rename\<close>)
  then show "WatchForController lister (Some g)
          (OnAdd (Object (child\<lparr>obj_meta := Some (cmeta\<lparr>meta_Name := n\<rparr>)\<rparr>))) t =
        Some (t\<lparr>queue := queue t @ [objectKey (meta_Namespace pmeta) (meta_Name pmeta)]\<rparr>)"
    by simp
qed

theorem filtered_indirect_mode_witness:
  "(asMetaObject (Object demoPod) = Some podMeta \<and> tierFilter ''tier'' = Some ''db'' \<and>
    meta_Labels podMeta ''tier'' \<noteq> Some ''db'') \<and>
   WatchForController clusterLister (Some tierFilter) (OnAdd (Object demoPod)) emptyRouter =
     Some emptyRouter \<and>
   (obj_meta demoPod = Some podMeta \<and>
    managedFilter ''managed-by'' = Some ''tikv-operator'' \<and>
    meta_Labels podMeta ''managed-by'' = Some ''tikv-operator'' \<and>
    GetControllerOf podMeta = Some demoRef \<and>
    ParseGroupVersion (ref_APIVersion demoRef) =
      Inr \<lparr>gv_Group = ''tikv.org'', gv_Version = ''v1alpha1''\<rparr> \<and>
    clusterLister (meta_Namespace podMeta) (ref_Name demoRef) = (Some demoCluster, None) \<and>
    ref_Kind demoRef = gvk_Kind (obj_gvk demoCluster) \<and>
    obj_meta demoCluster = Some demoMeta) \<and>
   WatchForController clusterLister (Some managedFilter) (OnUpdate Opaque (Object demoPod))
     emptyRouter = Some \<lparr>queue = [''ns1/demo''], handled = []\<rparr> \<and>
   MetaNamespaceKeyFunc (Object demoPod) = Inr ''ns1/demo-pd-0''"
proof -
  have dropped: "asMetaObject (Object demoPod) = Some podMeta \<and>
      tierFilter ''tier'' = Some ''db'' \<and> meta_Labels podMeta ''tier'' \<noteq> Some ''db''"
    by (simp add: fixture_defs)
  have labels: "\<forall>k v. managedFilter k = Some v \<longrightarrow> meta_Labels podMeta k = Some v"
    by (simp add: fixture_defs)
  have resolved: "obj_meta demoPod = Some podMeta \<and>
      GetControllerOf podMeta = Some demoRef \<and>
      ParseGroupVersion (ref_APIVersion demoRef) =
        Inr \<lparr>gv_Group = ''tikv.org'', gv_Version = ''v1alpha1''\<rparr> \<and>
      clusterLister (meta_Namespace podMeta) (ref_Name demoRef) = (Some demoCluster, None) \<and>
      ref_Kind demoRef = gvk_Kind (obj_gvk demoCluster) \<and>
      gv_Group \<lparr>gv_Group = ''tikv.org'', gv_Version = ''v1alpha1''\<rparr> =
        gvk_Group (obj_gvk demoCluster) \<and>
      obj_meta demoCluster = Some demoMeta"
    by (simp add: fixture_defs router_defs)
  note inst = filtered_indirect_mode [where obj = "Object demoPod" and meta = podMeta
      and f = tierFilter and k = "''tier''" and v = "''db''" and fn = clusterLister
      and s = emptyRouter and old = Opaque and child = demoPod and cmeta = podMeta
      and g = managedFilter and ref = demoRef
      and refGV = "\<lparr>gv_Group = ''tikv.org'', gv_Version = ''v1alpha1''\<rparr>"
      and lister = clusterLister and controllerObj = demoCluster and pmeta = demoMeta
      and t = emptyRouter and old' = Opaque and n = "''other''"]
  from inst dropped
  have "WatchForController clusterLister (Some tierFilter) (OnAdd (Object demoPod)) emptyRouter =
      Some emptyRouter"
    by blast
  moreover from inst labels resolved
  have "WatchForController clusterLister (Some managedFilter) (OnUpdate Opaque (Object demoPod))
      emptyRouter =
      Some (emptyRouter\<lparr>queue := queue emptyRouter @
        [objectKey (meta_Namespace demoMeta) (meta_Name demoMeta)]\<rparr>)"
    by blast
  moreover have "MetaNamespaceKeyFunc (Object demoPod) = Inr ''ns1/demo-pd-0''"
    by (simp add: fixture_defs objectKey_def)
  ultimately show ?thesis
    using dropped resolved by (simp add: fixture_defs objectKey_def)
qed

text \<open>
  C5. When the controlling reference of the event object resolves to a fetched candidate
  whose kind or group differs from the kind or group of the reference, the handler leaves
  the router as it was: no key is enqueued and no error is reported, whatever the name of
  the candidate is.
\<close>

theorem mismatched_controller_is_none:
  assumes "asMetaObject obj = Some meta"
    and "GetControllerOf meta = Some ref"
    and "ParseGroupVersion (ref_APIVersion ref) = Inr refGV"
    and "fn (meta_Namespace meta) (ref_Name ref) = (Some controllerObj, None)"
    and "ref_Kind ref \<noteq> gvk_Kind (obj_gvk controllerObj) \<or>
         gv_Group refGV \<noteq> gvk_Group (obj_gvk controllerObj)"
  shows "WatchForController fn m (OnAdd obj) s = Some s \<and>
         WatchForController fn m (OnUpdate old obj) s = Some s \<and>
         WatchForController fn m (OnDelete obj) s = Some s"
proof -
  have "enqueueFn_controller fn m obj s = Some s"
    using assms by (auto simp: enqueueFn_controller_def split: option.splits)
  then show ?thesis by simp
qed

theorem mismatched_controller_is_none_witness:
  "asMetaObject (Object demoPod) = Some podMeta \<and>
   GetControllerOf podMeta = Some demoRef \<and>
   ParseGroupVersion (ref_APIVersion demoRef) =
     Inr \<lparr>gv_Group = ''tikv.org'', gv_Version = ''v1alpha1''\<rparr> \<and>
   setLister (meta_Namespace podMeta) (ref_Name demoRef) = (Some demoSet, None) \<and>
   ref_Kind demoRef \<noteq> gvk_Kind (obj_gvk demoSet) \<and>
   obj_meta demoSet = Some demoMeta \<and> meta_Name demoMeta = ref_Name demoRef \<and>
   WatchForController setLister None (OnAdd (Object demoPod)) emptyRouter = Some emptyRouter \<and>
   WatchForController setLister (Some managedFilter) (OnUpdate Opaque (Object demoPod))
     emptyRouter = Some emptyRouter \<and>
   WatchForController setLister None (OnDelete (Object demoPod)) emptyRouter = Some emptyRouter"
proof -
  have h1: "asMetaObject (Object demoPod) = Some podMeta"
    by (simp add: fixture_defs)
  have h2: "GetControllerOf podMeta = Some demoRef"
    by (simp add: fixture_defs router_defs)
  have h3: "ParseGroupVersion (ref_APIVersion demoRef) =
      Inr \<lparr>gv_Group = ''tikv.org'', gv_Version = ''v1alpha1''\<rparr>"
    by (simp add: fixture_defs router_defs)
  have h4: "setLister (meta_Namespace podMeta) (ref_Name demoRef) = (Some demoSet, None)"
    by (simp add: fixture_defs)
  have h5: "ref_Kind demoRef \<noteq> gvk_Kind (obj_gvk demoSet) \<or>
      gv_Group \<lparr>gv_Group = ''tikv.org'', gv_Version = ''v1alpha1''\<rparr> \<noteq> gvk_Group (obj_gvk demoSet)"
    by (simp add: fixture_defs)
  have h6: "ref_Kind demoRef \<noteq> gvk_Kind (obj_gvk demoSet) \<and>
      obj_meta demoSet = Some demoMeta \<and> meta_Name demoMeta = ref_Name demoRef"
    by (simp add: fixture_defs)
  show ?thesis
    using mismatched_controller_is_none [where fn = setLister and m = None
        and s = emptyRouter and old = Opaque, OF h1 h2 h3 h4 h5]
      mismatched_controller_is_none [where fn = setLister and m = "Some managedFilter"
        and s = emptyRouter and old = Opaque, OF h1 h2 h3 h4 h5]
      h1 h2 h3 h4 h6
    by simp
qed

text \<open>
  C6. In direct mode, a sequence of add, update and delete events about one object
  identity makes one \<^verbatim>\<open>q.Add\<close> call per event, each with the key of that object, and
  reports no error. A delete delivered as a tombstone enqueues the cached key, whatever
  the tombstone holds in place of the object. When the key cannot be derived the error
  goes to \<^verbatim>\<open>HandleError\<close> and nothing is enqueued. The handler is a total function: it
  returns a router state on every payload.
\<close>

theorem direct_mode_enqueues_own_key:
  "((\<forall>ev \<in> set es. eventOn ns name ev) \<longrightarrow>
      deliver es s = s\<lparr>queue := queue s @ replicate (length es) (objectKey ns name)\<rparr>) \<and>
   WatchForObject (OnDelete (DeletedFinalStateUnknown k lastKnown)) t =
     t\<lparr>queue := queue t @ [k]\<rparr> \<and>
   (DeletionHandlingMetaNamespaceKeyFunc obj = Inl err \<longrightarrow>
      WatchForObject (OnAdd obj) u = u\<lparr>handled := handled u @ [CouldntGetKey obj err]\<rparr> \<and>
      WatchForObject (OnUpdate old obj) u = u\<lparr>handled := handled u @ [CouldntGetKey obj err]\<rparr> \<and>
      WatchForObject (OnDelete obj) u = u\<lparr>handled := handled u @ [CouldntGetKey obj err]\<rparr>)"
  by (simp add: deliver_eventOn enqueueFn_object_def)

theorem direct_mode_enqueues_own_key_witness:
  "eventOn ''ns1'' ''demo'' (OnAdd (Object demoCluster)) \<and>
   eventOn ''ns1'' ''demo'' (OnUpdate (Object demoCluster) (Object demoCluster)) \<and>
   eventOn ''ns1'' ''demo'' (OnDelete (DeletedFinalStateUnknown ''ns1/demo'' (Opaque :: nat payload))) \<and>
   deliver [OnAdd (Object demoCluster), OnUpdate (Object demoCluster) (Object demoCluster),
        OnDelete (DeletedFinalStateUnknown ''ns1/demo'' Opaque)] emptyRouter =
     \<lparr>queue = [''ns1/demo'', ''ns1/demo'', ''ns1/demo''], handled = []\<rparr> \<and>
   DeletionHandlingMetaNamespaceKeyFunc (Opaque :: nat payload) =
     Inl (ErrorString ''object has no meta'') \<and>
   WatchForObject (OnDelete Opaque) emptyRouter =
     \<lparr>queue = [], handled = [CouldntGetKey Opaque (ErrorString ''object has no meta'')]\<rparr>"
proof -
  let ?es = "[OnAdd (Object demoCluster), OnUpdate (Object demoCluster) (Object demoCluster),
      OnDelete (DeletedFinalStateUnknown ''ns1/demo'' (Opaque :: nat payload))]"
  have on: "\<forall>ev \<in> set ?es. eventOn ''ns1'' ''demo'' ev"
    by (simp add: fixture_defs objectKey_def)
  have nokey: "DeletionHandlingMetaNamespaceKeyFunc (Opaque :: nat payload) =
      Inl (ErrorString ''object has no meta'')"
    by simp
  note inst = direct_mode_enqueues_own_key [where es = ?es
      and ns = "''ns1''" and name = "''demo''" and s = emptyRouter
      and obj = "Opaque :: nat payload" and err = "ErrorString ''object has no meta''"
      and u = emptyRouter and old = Opaque and k = "''ns1/demo''" and lastKnown = Opaque
      and t = emptyRouter]
  from inst on
  have "deliver ?es emptyRouter =
      emptyRouter\<lparr>queue := queue emptyRouter @ replicate (length ?es) (objectKey ''ns1'' ''demo'')\<rparr>"
    by blast
  moreover from inst nokey
  have "WatchForObject (OnDelete Opaque) emptyRouter =
      emptyRouter\<lparr>handled := handled emptyRouter @
        [CouldntGetKey Opaque (ErrorString ''object has no meta'')]\<rparr>"
    by blast
  ultimately show ?thesis
    using on nokey by (simp add: emptyRouter_def objectKey_def)
qed

text \<open>
  C8. An update event is handled as the current object alone would be: the result does
  not depend on the old object, it is the result of an add event for the current object,
  and at most one key is enqueued. This holds in direct mode and in indirect mode.
\<close>

theorem update_keys_off_current_object:
  "WatchForObject (OnUpdate old cur) s = WatchForObject (OnUpdate old' cur) s \<and>
   WatchForObject (OnUpdate old cur) s = WatchForObject (OnAdd cur) s \<and>
   queue (WatchForObject (OnUpdate old cur) s) =
     queue s @ (case DeletionHandlingMetaNamespaceKeyFunc cur of Inl err \<Rightarrow> [] | Inr key \<Rightarrow> [key]) \<and>
   WatchForController fn m (OnUpdate old cur) t = WatchForController fn m (OnUpdate old' cur) t \<and>
   WatchForController fn m (OnUpdate old cur) t = WatchForController fn m (OnAdd cur) t \<and>
   (case WatchForController fn m (OnUpdate old cur) t of
      None \<Rightarrow> True
    | Some t' \<Rightarrow> length (queue t') \<le> Suc (length (queue t)))"
  by (auto simp: enqueueFn_object_def enqueueFn_controller_def
      split: sum.splits option.splits prod.splits)

text \<open>
  C9. For objects that carry identity metadata, the key derived by
  \<^verbatim>\<open>DeletionHandlingMetaNamespaceKeyFunc\<close> is a function of the namespace and the name
  alone: two objects with the same namespace and the same name have the same key,
  whatever their other fields are, and add, update and delete events enqueue that key.
\<close>

theorem key_depends_only_on_identity:
  assumes "obj_meta a = Some ma" and "obj_meta b = Some mb"
    and "meta_Namespace ma = meta_Namespace mb" and "meta_Name ma = meta_Name mb"
  shows "DeletionHandlingMetaNamespaceKeyFunc (Object a) =
           DeletionHandlingMetaNamespaceKeyFunc (Object b) \<and>
         DeletionHandlingMetaNamespaceKeyFunc (Object a) =
           Inr (objectKey (meta_Namespace ma) (meta_Name ma)) \<and>
         queue (WatchForObject (OnAdd (Object a)) s) =
           queue s @ [objectKey (meta_Namespace ma) (meta_Name ma)] \<and>
         queue (WatchForObject (OnUpdate old (Object b)) s) =
           queue s @ [objectKey (meta_Namespace ma) (meta_Name ma)] \<and>
         queue (WatchForObject (OnDelete (Object b)) s) =
           queue s @ [objectKey (meta_Namespace ma) (meta_Name ma)]"
  using assms by (simp add: enqueueFn_object_def)

theorem key_depends_only_on_identity_witness:
  "obj_meta demoCluster = Some demoMeta \<and> obj_meta demoSet = Some demoMeta \<and>
   demoCluster \<noteq> demoSet \<and>
   DeletionHandlingMetaNamespaceKeyFunc (Object demoCluster) =
     DeletionHandlingMetaNamespaceKeyFunc (Object demoSet) \<and>
   DeletionHandlingMetaNamespaceKeyFunc (Object demoCluster) = Inr ''ns1/demo'' \<and>
   queue (WatchForObject (OnDelete (Object demoSet)) emptyRouter) = [''ns1/demo'']"
proof -
  have h1: "obj_meta demoCluster = Some demoMeta" and h2: "obj_meta demoSet = Some demoMeta"
    by (simp_all add: fixture_defs)
  have h3: "demoCluster \<noteq> demoSet"
    by (simp add: fixture_defs)
  show ?thesis
    using key_depends_only_on_identity [OF h1 h2 refl refl, of emptyRouter Opaque] h1 h2 h3
    by (simp add: fixture_defs objectKey_def)
qed

text \<open>
  C10. When the payload of an event does not implement \<^verbatim>\<open>metav1.Object\<close>, the handler of
  \<^verbatim>\<open>WatchForController\<close> reports one error to \<^verbatim>\<open>HandleError\<close> and returns: the queue is
  unchanged, there is no panic, and the lookup function is not consulted (the result is
  the same for every lookup function and every filter).
\<close>

theorem malformed_payload_is_reported:
  assumes "asMetaObject obj = None"
  shows "WatchForController fn m (OnAdd obj) s =
           Some (s\<lparr>handled := handled s @ [NotARuntimeObject obj]\<rparr>) \<and>
         WatchForController fn m (OnUpdate old obj) s =
           Some (s\<lparr>handled := handled s @ [NotARuntimeObject obj]\<rparr>) \<and>
         WatchForController fn m (OnDelete obj) s =
           Some (s\<lparr>handled := handled s @ [NotARuntimeObject obj]\<rparr>)"
  using assms by (simp add: enqueueFn_controller_def)

theorem malformed_payload_is_reported_witness:
  "asMetaObject (DeletedFinalStateUnknown ''ns1/demo-pd-0'' (Object demoPod)) = None \<and>
   WatchForController (\<lambda>ns name. (None, None)) (Some managedFilter)
     (OnDelete (DeletedFinalStateUnknown ''ns1/demo-pd-0'' (Object demoPod))) emptyRouter =
     Some \<lparr>queue = [],
       handled = [NotARuntimeObject (DeletedFinalStateUnknown ''ns1/demo-pd-0'' (Object demoPod))]\<rparr>"
proof -
  have h: "asMetaObject (DeletedFinalStateUnknown ''ns1/demo-pd-0'' (Object demoPod)) = None"
    by simp
  show ?thesis
    using malformed_payload_is_reported [OF h, of "\<lambda>ns name. (None, None)"
        "Some managedFilter" emptyRouter Opaque] h
    by (simp add: fixture_defs)
qed

subsection \<open>The guaranteed updater\<close>

lemma GuaranteedUpdate_fn_cycle:
  "GuaranteedUpdate_fn DeepEqual cli key updateFunc s = (err, s') \<Longrightarrow>
   \<exists>cyc. st_calls s' = st_calls s @ cyc \<and> cycle cyc err"
  by (auto simp: GuaranteedUpdate_fn_def cycle_def Let_def
      split: prod.splits option.splits if_splits)

lemma chain_append:
  "chain (xs @ ys) = (chain xs \<and> chain ys \<and> (xs = [] \<or> ys = [] \<or> follows (last xs) (hd ys)))"
proof (induction xs rule: chain.induct)
  case 1
  then show ?case by simp
next
  case (2 c)
  then show ?case by (cases ys) auto
next
  case (3 c d cs)
  then show ?case by auto
qed

lemma cycle_facts:
  "cycle cyc err \<Longrightarrow>
   cyc \<noteq> [] \<and> isGet (hd cyc) \<and> chain cyc \<and> ret (last cyc) = err \<and>
   length (filter isGet cyc) = 1"
  by (auto simp: cycle_def follows_def)

lemma lastConflict_append:
  "lastConflict acc (xs @ ys) = lastConflict (lastConflict acc xs) ys"
  by (induction xs arbitrary: acc) simp_all

lemma lastConflict_cycle:
  "cycle cyc err \<Longrightarrow>
   lastConflict acc cyc = (if conflicted (last cyc) then err else acc)"
  by (auto simp: cycle_def conflicted_def)

lemma ExponentialBackoff_calls:
  assumes fn: "fn = GuaranteedUpdate_fn DeepEqual cli key updateFunc"
  shows "ExponentialBackoff n (RetryOnConflict_condition fn) (lastErr, s) = (err, lastErr', s') \<Longrightarrow>
    \<exists>new. st_calls s' = st_calls s @ new \<and> chain new \<and> length (filter isGet new) \<le> n \<and>
       (new = [] \<or> isGet (hd new)) \<and> (new = [] \<longrightarrow> n = 0) \<and>
       lastErr' = lastConflict lastErr new \<and>
       err = (if new = [] \<or> conflicted (last new) then Some ErrWaitTimeout else ret (last new))"
proof (induction n arbitrary: lastErr s)
  case 0
  then show ?case by auto
next
  case (Suc n)
  obtain e1 s1 where f: "fn s = (e1, s1)"
    by (cases "fn s")
  from f obtain cyc where c: "st_calls s1 = st_calls s @ cyc" "cycle cyc e1"
    unfolding fn by (blast dest: GuaranteedUpdate_fn_cycle)
  note cf = cycle_facts[OF c(2)]
  note lc = lastConflict_cycle[OF c(2)]
  show ?case
  proof (cases "\<exists>e. e1 = Some e \<and> IsConflict e")
    case True
    then obtain e where e: "e1 = Some e" "IsConflict e"
      by blast
    then have conf: "conflicted (last cyc)"
      using cf by (simp add: conflicted_def)
    from Suc.prems f e
    have "ExponentialBackoff n (RetryOnConflict_condition fn) (Some e, s1) = (err, lastErr', s')"
      by simp
    from Suc.IH[OF this] obtain new where n: "st_calls s' = st_calls s1 @ new" "chain new"
      "length (filter isGet new) \<le> n" "new = [] \<or> isGet (hd new)"
      "lastErr' = lastConflict (Some e) new"
      "err = (if new = [] \<or> conflicted (last new) then Some ErrWaitTimeout else ret (last new))"
      by blast
    have "follows (last cyc) (hd new)" if "new \<noteq> []"
      using that n(4) cf e by (simp add: follows_def)
    then have "chain (cyc @ new)"
      using cf n(2) by (auto simp: chain_append)
    moreover have "st_calls s' = st_calls s @ (cyc @ new)"
      using c n by simp
    moreover have "length (filter isGet (cyc @ new)) \<le> Suc n"
      using cf n(3) by simp
    moreover have "isGet (hd (cyc @ new))"
      using cf by simp
    moreover have "lastErr' = lastConflict lastErr (cyc @ new)"
      using n(5) lc conf e by (simp add: lastConflict_append)
    moreover have "err = (if conflicted (last (cyc @ new)) then Some ErrWaitTimeout
        else ret (last (cyc @ new)))"
      using n(6) conf by (cases "new = []") simp_all
    ultimately show ?thesis
      using cf by (intro exI[of _ "cyc @ new"]) simp
  next
    case False
    then have noconf: "\<not> conflicted (last cyc)"
      using cf by (auto simp: conflicted_def split: option.splits)
    from False Suc.prems f have "err = e1" "s' = s1" "lastErr' = lastErr"
      by (auto split: option.splits if_splits)
    then show ?thesis
      using c cf lc noconf by (intro exI[of _ cyc]) simp
  qed
qed

lemma GuaranteedUpdate_calls:
  assumes run: "GuaranteedUpdate backoff DeepEqual cli ob updateFunc w = (err, s)"
    and key: "obj_meta ob = Some meta"
  shows "chain (st_calls s) \<and> length (filter isGet (st_calls s)) \<le> Steps backoff \<and>
         (st_calls s = [] \<or> isGet (hd (st_calls s))) \<and>
         err = returned (st_calls s) \<and>
         (st_calls s = [] \<longrightarrow> Steps backoff = 0)"
proof -
  let ?key = "\<lparr>key_Namespace = meta_Namespace meta, key_Name = meta_Name meta\<rparr>"
  let ?s0 = "\<lparr>st_obj = ob, st_world = w, st_calls = []\<rparr>"
  let ?fn = "GuaranteedUpdate_fn DeepEqual cli ?key updateFunc"
  obtain e lastErr' s' where loop:
    "ExponentialBackoff (Steps backoff) (RetryOnConflict_condition ?fn) (None, ?s0) = (e, lastErr', s')"
    by (cases "ExponentialBackoff (Steps backoff) (RetryOnConflict_condition ?fn) (None, ?s0)")
  have res: "err = (if e = Some ErrWaitTimeout then lastErr' else e)" "s = s'"
    using run key loop
    by (simp_all add: GuaranteedUpdate_def ObjectKeyFromObject_def RetryOnConflict_def)
  from ExponentialBackoff_calls[OF refl loop]
  obtain new where n: "st_calls s' = st_calls ?s0 @ new" "chain new"
    "length (filter isGet new) \<le> Steps backoff" "new = [] \<or> isGet (hd new)"
    "new = [] \<longrightarrow> Steps backoff = 0" "lastErr' = lastConflict None new"
    "e = (if new = [] \<or> conflicted (last new) then Some ErrWaitTimeout else ret (last new))"
    by blast
  have calls: "st_calls s = new"
    using n(1) res(2) by simp
  have "err = returned new"
  proof (cases "new = []")
    case True
    then show ?thesis
      using res n by (simp add: returned_def)
  next
    case False
    obtain pre c where new: "new = pre @ [c]"
      using False by (cases new rule: rev_cases) auto
    show ?thesis
    proof (cases "conflicted c")
      case True
      then have "ret c \<noteq> Some ErrWaitTimeout"
        by (auto simp: conflicted_def split: option.splits)
      then show ?thesis
        using res n new True by (simp add: returned_def lastConflict_append)
    next
      case False
      then show ?thesis
        using res n new by (simp add: returned_def)
    qed
  qed
  then show ?thesis
    using n calls by simp
qed

lemma returned_not_sentinel:
  "cs \<noteq> [] \<Longrightarrow> ret (last cs) \<noteq> Some ErrWaitTimeout \<Longrightarrow> returned cs = ret (last cs)"
  by (simp add: returned_def)


lemma chain_retry_discipline: "chain cs \<Longrightarrow> retry_discipline cs"
  by (induction cs rule: chain.induct)
    (auto simp: follows_def conflicted_def split: option.splits)


text \<open>
  The sentinel of the retry helper at work. An \<^verbatim>\<open>updateFunc\<close> that fails with
  \<^verbatim>\<open>wait.ErrWaitTimeout\<close> in the first cycle ends the run and \<^verbatim>\<open>GuaranteedUpdate\<close> returns
  \<^verbatim>\<open>nil\<close>; a fetch that fails with it after a write conflict ends the run and the conflict
  is returned.
\<close>

lemma sentinel_is_replaced_by_lastErr:
  "GuaranteedUpdate DefaultRetry (=) plainClient demoCluster mutateTimesOut 0 =
     (None, \<lparr>st_obj = demoCluster, st_world = 0,
        st_calls = [CallGet None, CallUpdateFunc (Some ErrWaitTimeout)]\<rparr>) \<and>
   GuaranteedUpdate DefaultRetry (=) timeoutAfterConflictClient demoCluster bumpBody 0 =
     (Some conflictErr, \<lparr>st_obj = demoCluster\<lparr>obj_body := 1\<rparr>, st_world = 1,
        st_calls = [CallGet None, CallUpdateFunc None, CallUpdate (Some conflictErr),
                    CallGet (Some ErrWaitTimeout)]\<rparr>)"
  by (simp add: update_defs fixture_defs)

text \<open>
  C1. When the fetch succeeds and \<^verbatim>\<open>updateFunc\<close> succeeds and leaves the object
  semantically equal to the copy taken right after the fetch, \<^verbatim>\<open>GuaranteedUpdate\<close> returns
  \<^verbatim>\<open>nil\<close> after these two calls: the \<^verbatim>\<open>Update\<close> of the store client is not called. The
  backoff allows at least one attempt, as \<^verbatim>\<open>retry.DefaultRetry\<close> does.
\<close>

theorem unchanged_object_skips_write:
  assumes "0 < Steps backoff"
    and "obj_meta ob = Some meta"
    and "cli_Get cli \<lparr>key_Namespace = meta_Namespace meta, key_Name = meta_Name meta\<rparr> ob w =
           (None, o1, w1)"
    and "updateFunc o1 w1 = (None, o2, w2)"
    and "DeepEqual o2 o1"
  shows "GuaranteedUpdate backoff DeepEqual cli ob updateFunc w =
           (None, \<lparr>st_obj = o2, st_world = w2, st_calls = [CallGet None, CallUpdateFunc None]\<rparr>) \<and>
         filter isUpdate (st_calls (snd (GuaranteedUpdate backoff DeepEqual cli ob updateFunc w))) = []"
proof -
  from assms(1) obtain n where "Steps backoff = Suc n"
    by (cases "Steps backoff") simp_all
  then show ?thesis
    using assms(2-) by (simp add: update_defs)
qed

theorem unchanged_object_skips_write_witness:
  "0 < Steps DefaultRetry \<and> obj_meta demoCluster = Some demoMeta \<and>
   cli_Get plainClient \<lparr>key_Namespace = ''ns1'', key_Name = ''demo''\<rparr> demoCluster 0 =
     (None, demoCluster, 0) \<and>
   noChange demoCluster 0 = (None, demoCluster, 0) \<and>
   GuaranteedUpdate DefaultRetry (=) plainClient demoCluster noChange 0 =
     (None, \<lparr>st_obj = demoCluster, st_world = 0, st_calls = [CallGet None, CallUpdateFunc None]\<rparr>)"
proof -
  have h0: "0 < Steps DefaultRetry"
    by (simp add: DefaultRetry_def)
  have h1: "obj_meta demoCluster = Some demoMeta"
    by (simp add: fixture_defs)
  have h2: "cli_Get plainClient
      \<lparr>key_Namespace = meta_Namespace demoMeta, key_Name = meta_Name demoMeta\<rparr> demoCluster 0 =
      (None, demoCluster, 0)"
    by (simp add: fixture_defs)
  have h3: "noChange demoCluster 0 = (None, demoCluster, 0)"
    by (simp add: fixture_defs)
  have h4: "demoCluster = demoCluster"
    by simp
  show ?thesis
    using unchanged_object_skips_write [where DeepEqual = "(=)" and cli = plainClient
        and updateFunc = noChange, OF h0 h1 h2 h3 h4] h0 h1 h2 h3
    by (simp add: demoMeta_def)
qed

text \<open>
  C2. The closure is run again only right after a call that returned a version conflict
  (a write of the store, but also a fetch or \<^verbatim>\<open>updateFunc\<close> when the error it returns is a
  conflict), and every run of the closure starts with a fetch. There are at most
  \<open>Steps backoff\<close> runs (five with the \<^verbatim>\<open>retry.DefaultRetry\<close> of client-go). The returned
  error is \<open>returned\<close> of the calls made: the error of the last call, with the last
  conflict in place of the sentinel of the retry helper; so when the last allowed run ends
  in a conflict, that conflict is returned. When the first write returns a conflict and
  the second cycle ends with a write that succeeds, \<^verbatim>\<open>GuaranteedUpdate\<close> returns \<^verbatim>\<open>nil\<close>
  after exactly two cycles of fetch, mutation and write.
\<close>

theorem retry_is_bounded_and_restarts_with_fetch:
  "(GuaranteedUpdate backoff DeepEqual cli ob updateFunc w = (err, s) \<and>
    obj_meta ob = Some meta \<and> 0 < Steps backoff \<longrightarrow>
      isGet (hd (st_calls s)) \<and> retry_discipline (st_calls s) \<and>
      length (filter isGet (st_calls s)) \<le> Steps backoff \<and>
      err = returned (st_calls s) \<and>
      (length (filter isGet (st_calls s)) = Steps backoff \<and> conflicted (last (st_calls s)) \<longrightarrow>
         err = ret (last (st_calls s)) \<and> (\<exists>e. err = Some e \<and> IsConflict e))) \<and>
   (1 < Steps backoff' \<and> obj_meta ob' = Some meta' \<and>
    key' = \<lparr>key_Namespace = meta_Namespace meta', key_Name = meta_Name meta'\<rparr> \<and>
    cli_Get cli' key' ob' w' = (None, oF, wF) \<and> updateFunc' oF wF = (None, oM, wM) \<and>
    \<not> DeepEqual' oM oF \<and> cli_Update cli' oM wM = (Some e, oU, wU) \<and> IsConflict e \<and>
    cli_Get cli' key' oU wU = (None, oF', wF') \<and> updateFunc' oF' wF' = (None, oM', wM') \<and>
    \<not> DeepEqual' oM' oF' \<and> cli_Update cli' oM' wM' = (None, oU', wU') \<longrightarrow>
      GuaranteedUpdate backoff' DeepEqual' cli' ob' updateFunc' w' =
        (None, \<lparr>st_obj = oU', st_world = wU',
           st_calls = [CallGet None, CallUpdateFunc None, CallUpdate (Some e),
                       CallGet None, CallUpdateFunc None, CallUpdate None]\<rparr>))"
proof (intro conjI impI)
  assume a: "GuaranteedUpdate backoff DeepEqual cli ob updateFunc w = (err, s) \<and>
    obj_meta ob = Some meta \<and> 0 < Steps backoff"
  then have run: "GuaranteedUpdate backoff DeepEqual cli ob updateFunc w = (err, s)"
    and key: "obj_meta ob = Some meta" and steps: "0 < Steps backoff"
    by blast+
  note calls = GuaranteedUpdate_calls[OF run key]
  have nonempty: "st_calls s \<noteq> []"
    using calls steps by auto
  show "isGet (hd (st_calls s))"
    using calls nonempty by blast
  show res: "err = returned (st_calls s)"
    using calls by blast
  show "length (filter isGet (st_calls s)) \<le> Steps backoff"
    using calls by blast
  show "retry_discipline (st_calls s)"
    using calls by (blast intro: chain_retry_discipline)
  assume full: "length (filter isGet (st_calls s)) = Steps backoff \<and>
    conflicted (last (st_calls s))"
  then have "ret (last (st_calls s)) \<noteq> Some ErrWaitTimeout"
    by (auto simp: conflicted_def split: option.splits)
  then show last: "err = ret (last (st_calls s))"
    using res nonempty by (simp add: returned_not_sentinel)
  show "\<exists>e. err = Some e \<and> IsConflict e"
    using last full by (auto simp: conflicted_def split: option.splits)
next
  assume b: "1 < Steps backoff' \<and> obj_meta ob' = Some meta' \<and>
    key' = \<lparr>key_Namespace = meta_Namespace meta', key_Name = meta_Name meta'\<rparr> \<and>
    cli_Get cli' key' ob' w' = (None, oF, wF) \<and> updateFunc' oF wF = (None, oM, wM) \<and>
    \<not> DeepEqual' oM oF \<and> cli_Update cli' oM wM = (Some e, oU, wU) \<and> IsConflict e \<and>
    cli_Get cli' key' oU wU = (None, oF', wF') \<and> updateFunc' oF' wF' = (None, oM', wM') \<and>
    \<not> DeepEqual' oM' oF' \<and> cli_Update cli' oM' wM' = (None, oU', wU')"
  then obtain n where "Steps backoff' = Suc (Suc n)"
    by (cases "Steps backoff'"; cases "Steps backoff' - 1") auto
  with b show "GuaranteedUpdate backoff' DeepEqual' cli' ob' updateFunc' w' =
        (None, \<lparr>st_obj = oU', st_world = wU',
           st_calls = [CallGet None, CallUpdateFunc None, CallUpdate (Some e),
                       CallGet None, CallUpdateFunc None, CallUpdate None]\<rparr>)"
    by (elim conjE) (simp add: update_defs)
qed

theorem retry_is_bounded_and_restarts_with_fetch_witness:
  "Steps DefaultRetry = 5 \<and>
   GuaranteedUpdate DefaultRetry (=) alwaysConflictClient demoCluster bumpBody 0 =
     (Some conflictErr, \<lparr>st_obj = demoCluster\<lparr>obj_body := 5\<rparr>, st_world = 5,
        st_calls = [CallGet None, CallUpdateFunc None, CallUpdate (Some conflictErr),
                    CallGet None, CallUpdateFunc None, CallUpdate (Some conflictErr),
                    CallGet None, CallUpdateFunc None, CallUpdate (Some conflictErr),
                    CallGet None, CallUpdateFunc None, CallUpdate (Some conflictErr),
                    CallGet None, CallUpdateFunc None, CallUpdate (Some conflictErr)]\<rparr>) \<and>
   IsConflict conflictErr \<and>
   GuaranteedUpdate DefaultRetry (=) conflictOnceClient demoCluster setBody7 0 =
     (None, \<lparr>st_obj = demoCluster\<lparr>obj_body := 7\<rparr>, st_world = 1,
        st_calls = [CallGet None, CallUpdateFunc None, CallUpdate (Some conflictErr),
                    CallGet None, CallUpdateFunc None, CallUpdate None]\<rparr>)"
proof -
  let ?s5 = "\<lparr>st_obj = demoCluster\<lparr>obj_body := 5\<rparr>, st_world = 5::nat,
        st_calls = [CallGet None, CallUpdateFunc None, CallUpdate (Some conflictErr),
                    CallGet None, CallUpdateFunc None, CallUpdate (Some conflictErr),
                    CallGet None, CallUpdateFunc None, CallUpdate (Some conflictErr),
                    CallGet None, CallUpdateFunc None, CallUpdate (Some conflictErr),
                    CallGet None, CallUpdateFunc None, CallUpdate (Some conflictErr)]\<rparr>"
  have run: "GuaranteedUpdate DefaultRetry (=) alwaysConflictClient demoCluster bumpBody 0 = (Some conflictErr, ?s5)"
    by (simp add: update_defs fixture_defs)
  have key: "obj_meta demoCluster = Some demoMeta"
    by (simp add: fixture_defs)
  have steps: "0 < Steps DefaultRetry"
    by (simp add: DefaultRetry_def)
  have full: "length (filter isGet (st_calls ?s5)) = Steps DefaultRetry \<and>
      conflicted (last (st_calls ?s5))"
    by (simp add: DefaultRetry_def conflicted_def conflictErr_def)
  have hyps: "1 < Steps DefaultRetry \<and> obj_meta demoCluster = Some demoMeta \<and>
    \<lparr>key_Namespace = ''ns1'', key_Name = ''demo''\<rparr> =
      \<lparr>key_Namespace = meta_Namespace demoMeta, key_Name = meta_Name demoMeta\<rparr> \<and>
    cli_Get conflictOnceClient \<lparr>key_Namespace = ''ns1'', key_Name = ''demo''\<rparr> demoCluster 0 =
      (None, demoCluster, 0) \<and>
    setBody7 demoCluster 0 = (None, demoCluster\<lparr>obj_body := 7\<rparr>, 0) \<and>
    \<not> (demoCluster\<lparr>obj_body := 7\<rparr> = demoCluster) \<and>
    cli_Update conflictOnceClient (demoCluster\<lparr>obj_body := 7\<rparr>) 0 =
      (Some conflictErr, demoCluster\<lparr>obj_body := 7\<rparr>, 1) \<and>
    IsConflict conflictErr \<and>
    cli_Get conflictOnceClient \<lparr>key_Namespace = ''ns1'', key_Name = ''demo''\<rparr>
      (demoCluster\<lparr>obj_body := 7\<rparr>) 1 = (None, demoCluster\<lparr>obj_body := 1\<rparr>, 1) \<and>
    setBody7 (demoCluster\<lparr>obj_body := 1\<rparr>) 1 = (None, demoCluster\<lparr>obj_body := 7\<rparr>, 1) \<and>
    \<not> (demoCluster\<lparr>obj_body := 7\<rparr> = demoCluster\<lparr>obj_body := 1\<rparr>) \<and>
    cli_Update conflictOnceClient (demoCluster\<lparr>obj_body := 7\<rparr>) 1 =
      (None, demoCluster\<lparr>obj_body := 7\<rparr>, 1)"
    by (simp add: fixture_defs)
  note inst = retry_is_bounded_and_restarts_with_fetch [where DeepEqual = "(=)"
      and backoff = DefaultRetry and backoff' = DefaultRetry
      and cli = alwaysConflictClient and ob = demoCluster and updateFunc = bumpBody and w = 0
      and err = "Some conflictErr" and s = ?s5 and meta = demoMeta
      and DeepEqual' = "(=)" and cli' = conflictOnceClient and ob' = demoCluster
      and updateFunc' = setBody7 and w' = 0 and meta' = demoMeta
      and key' = "\<lparr>key_Namespace = ''ns1'', key_Name = ''demo''\<rparr>"
      and oF = demoCluster and wF = 0 and oM = "demoCluster\<lparr>obj_body := 7\<rparr>" and wM = 0
      and e = conflictErr and oU = "demoCluster\<lparr>obj_body := 7\<rparr>" and wU = 1
      and oF' = "demoCluster\<lparr>obj_body := 1\<rparr>" and wF' = 1
      and oM' = "demoCluster\<lparr>obj_body := 7\<rparr>" and wM' = 1
      and oU' = "demoCluster\<lparr>obj_body := 7\<rparr>" and wU' = 1]
  from inst run key steps full
  have "Some conflictErr = ret (last (st_calls ?s5)) \<and> (\<exists>e. Some conflictErr = Some e \<and> IsConflict e)"
    by blast
  moreover from inst hyps have "GuaranteedUpdate DefaultRetry (=) conflictOnceClient demoCluster setBody7 0 =
     (None, \<lparr>st_obj = demoCluster\<lparr>obj_body := 7\<rparr>, st_world = 1,
        st_calls = [CallGet None, CallUpdateFunc None, CallUpdate (Some conflictErr),
                    CallGet None, CallUpdateFunc None, CallUpdate None]\<rparr>)"
    by blast
  ultimately show ?thesis
    using run by (simp add: DefaultRetry_def)
qed

text \<open>
  The retry rule read literally, the cycle is attempted again only when the write of the
  store reports a conflict, fails: here \<^verbatim>\<open>updateFunc\<close> returns a conflict in the first
  cycle, no write is made in that cycle, and a second cycle runs.
\<close>

theorem retry_without_write_conflict_counterexample:
  "mutateConflictOnce demoCluster 0 = (Some conflictErr, demoCluster, 1) \<and>
   GuaranteedUpdate DefaultRetry (=) plainClient demoCluster mutateConflictOnce 0 =
     (None, \<lparr>st_obj = demoCluster\<lparr>obj_body := 1\<rparr>, st_world = 1,
        st_calls = [CallGet None, CallUpdateFunc (Some conflictErr),
                    CallGet None, CallUpdateFunc None, CallUpdate None]\<rparr>) \<and>
   \<not> retried_only_after_write_conflict
       (st_calls (snd (GuaranteedUpdate DefaultRetry (=) plainClient demoCluster mutateConflictOnce 0)))"
  by (simp add: update_defs fixture_defs conflicted_def)




end
